theory Spec2Isabelle
  imports Main
begin

section \<open>SQL format strings of \<^verbatim>\<open>connections.py\<close>\<close>

text \<open>
  Python strings are modelled as \<^typ>\<open>string\<close>, read as their UTF-8 bytes: the one
  character of the module outside ASCII (the smiley of \<^verbatim>\<open>POSTGRES_COPY_FORMAT\<close>,
  U+1F60A) is the four bytes F0 9F 98 8A. A triple-quoted literal starts and ends with
  a line break, and keeps the indentation and the trailing blanks of its lines.
  The backslash of a raw string is \<^term>\<open>CHR 0x5C\<close>.
\<close>

definition SQLITE_INSERT_FORMAT :: string where
  "SQLITE_INSERT_FORMAT =
     ''\<newline>    INSERT INTO <table> (<column1>, <column2>, ...)'' @
     ''\<newline>    VALUES (:<column1_source>, :<column2_source>, ...)\<newline>''"

definition SQLITE_VALUES_FORMAT :: string where
  "SQLITE_VALUES_FORMAT = '':('' @ [CHR 0x5C] @ ''w+)''"

definition POSTGRES_INSERT_FORMAT :: string where
  "POSTGRES_INSERT_FORMAT =
     ''\<newline>    INSERT INTO <table> (<column1>, <column2>, ...)'' @
     ''\<newline>    VALUES (%(<column1_source>)s, %(<column2_source>)s, ...)\<newline>''"

definition POSTGRES_VALUES_FORMAT :: string where
  "POSTGRES_VALUES_FORMAT =
     ''%'' @ [CHR 0x5C] @ ''(('' @ [CHR 0x5C] @ ''w+)'' @ [CHR 0x5C] @ '')s''"

definition POSTGRES_COPY_FORMAT :: string where
  "POSTGRES_COPY_FORMAT =
     ''\<newline>    COPY <table> (<column1_source>, <column2_source>, ...)'' @
     ''\<newline>(FROM is not necessary, this is taken care of for you '' @
     [CHR 0xF0, CHR 0x9F, CHR 0x98, CHR 0x8A] @ '')\<newline>''"

definition RETRIEVE_FORMAT :: string where
  "RETRIEVE_FORMAT =
     ''\<newline>    SELECT id as <table>_id, <column1> as <alias1>, <column2> FROM <table>\<newline>''"

definition COMPARE_FORMAT :: string where
  "COMPARE_FORMAT =
     ''\<newline>    SELECT '' @
     ''\<newline>        <table>.<column> as <alias>,'' @
     ''\<newline>        <table>.<column>,'' @
     ''\<newline>        <column>,'' @
     ''\<newline>        ...'' @
     ''\<newline>    FROM <table>'' @
     ''\<newline>        JOIN <other_table> ON <other_table>.<table>_id = <table>.id'' @
     ''\<newline>        JOIN ...'' @
     ''\<newline>    ...\<newline>''"

definition NO_COPY_FORMAT :: string where
  "NO_COPY_FORMAT = ''COPY not available for this cursor.''"

section \<open>The dataclass \<^verbatim>\<open>SQLFormat\<close> and its two subclasses\<close>

record SQLFormat =
  insert_format :: string
  values_pattern :: string
  copy_available :: bool
  copy_format :: string
  retrieve_format :: string
  compare_format :: string

text \<open>
  \<^verbatim>\<open>SQLiteFormat()\<close> and \<^verbatim>\<open>PostgresFormat()\<close> take no argument and pass four
  fields to \<^verbatim>\<open>SQLFormat.__init__\<close>; the other two keep the defaults of the dataclass.
\<close>

definition SQLiteFormat :: SQLFormat where
  "SQLiteFormat =
     \<lparr> insert_format = SQLITE_INSERT_FORMAT,
       values_pattern = SQLITE_VALUES_FORMAT,
       copy_available = False,
       copy_format = NO_COPY_FORMAT,
       retrieve_format = RETRIEVE_FORMAT,
       compare_format = COMPARE_FORMAT \<rparr>"

definition PostgresFormat :: SQLFormat where
  "PostgresFormat =
     \<lparr> insert_format = POSTGRES_INSERT_FORMAT,
       values_pattern = POSTGRES_VALUES_FORMAT,
       copy_available = True,
       copy_format = POSTGRES_COPY_FORMAT,
       retrieve_format = RETRIEVE_FORMAT,
       compare_format = COMPARE_FORMAT \<rparr>"

section \<open>Exceptions, runtime types and \<^verbatim>\<open>get_sql_format\<close>\<close>

text \<open>
  A Python call either raises (\<open>Inl\<close>) or returns (\<open>Inr\<close>). \<open>KeyError k\<close> is what a
  dictionary lookup of an absent key \<open>k\<close> raises; \<open>Raised n\<close> is any other exception,
  by name: one of a database library, or one of the caller's code. The class of an
  exception is an object with a truth value: true for every class but one whose
  metaclass defines \<^verbatim>\<open>__bool__\<close> or \<^verbatim>\<open>__len__\<close> otherwise; \<open>Raised_falsy n\<close> is an
  exception of such a class.
\<close>

datatype py_error = KeyError string | Raised string | Raised_falsy string

fun class_truth :: "py_error \<Rightarrow> bool" where
  "class_truth (KeyError k) = True"
| "class_truth (Raised n) = True"
| "class_truth (Raised_falsy n) = False"

text \<open>
  The runtime type of the object handed to \<^verbatim>\<open>get_sql_format\<close>, as the two
  \<^verbatim>\<open>isinstance\<close> tests see it: an instance of \<^verbatim>\<open>sqlite3.Cursor\<close> (or of a subclass),
  an instance of \<^verbatim>\<open>psycopg.Cursor\<close> (or of a subclass), or an object of any other
  class, named.
\<close>

datatype py_class = Sqlite3_Cursor | Psycopg_Cursor | Other_Class string

fun isinstance :: "py_class \<Rightarrow> py_class \<Rightarrow> bool" where
  "isinstance c k = (c = k)"

text \<open>
  The function has three exits and no \<^verbatim>\<open>raise\<close>: the last one is \<^verbatim>\<open>return None\<close>,
  the value \<open>Inr None\<close>.
\<close>

definition get_sql_format :: "py_class \<Rightarrow> py_error + SQLFormat option" where
  "get_sql_format cursor =
     (if isinstance cursor Sqlite3_Cursor then Inr (Some SQLiteFormat)
      else if isinstance cursor Psycopg_Cursor then Inr (Some PostgresFormat)
      else Inr None)"

section \<open>The database libraries, as the wrappers use them\<close>

text \<open>
  The wrappers call \<^verbatim>\<open>sqlite3\<close> and \<^verbatim>\<open>psycopg\<close>; every such call is an event of a
  trace, in the order of the calls. A call may raise: the library is a parameter
  \<open>L\<close> that says, from the calls issued so far and the call at hand, whether it raises
  and what. A call that raises is in the trace too (it was issued).
\<close>

datatype row_factory = Tuple_row | Dict_row

datatype lib_call =
    Sqlite3_connect string
  | Psycopg_connect string row_factory
  | Conn_cursor
  | Conn_commit
  | Conn_rollback
  | Conn_close
  | Cursor_execute string

type_synonym trace = "lib_call list"

type_synonym lib = "trace \<Rightarrow> lib_call \<Rightarrow> py_error option"

definition call_lib :: "lib \<Rightarrow> lib_call \<Rightarrow> trace \<Rightarrow> (py_error + unit) \<times> trace" where
  "call_lib L c tr = ((case L tr c of Some e \<Rightarrow> Inl e | None \<Rightarrow> Inr ()), tr @ [c])"

text \<open>A library none of whose calls raises.\<close>

definition no_faults :: lib where
  "no_faults tr c = None"

text \<open>A library whose rollback raises, and no other call.\<close>

definition rollback_fails :: lib where
  "rollback_fails tr c = (if c = Conn_rollback then Some (Raised ''OperationalError'') else None)"

datatype backend = SQLite | Postgres

record connection =
  conn_backend :: backend
  conn_target :: string
  conn_row_factory :: row_factory

record cursor =
  cursor_class :: py_class
  cursor_connection :: connection

text \<open>
  What \<^verbatim>\<open>sqlite3.connect(db)\<close> returns: a connection whose rows are tuples, until
  \<^verbatim>\<open>row_factory\<close> is assigned. \<^verbatim>\<open>psycopg.connect\<close> takes the row factory as an
  argument.
\<close>

definition sqlite3_connection :: "string \<Rightarrow> connection" where
  "sqlite3_connection db =
     \<lparr> conn_backend = SQLite, conn_target = db, conn_row_factory = Tuple_row \<rparr>"

definition psycopg_connection :: "string \<Rightarrow> row_factory \<Rightarrow> connection" where
  "psycopg_connection credentials rf =
     \<lparr> conn_backend = Postgres, conn_target = credentials, conn_row_factory = rf \<rparr>"




section \<open>The two context managers\<close>

text \<open>
  Both classes have one attribute, \<^verbatim>\<open>connection\<close>. \<^verbatim>\<open>__exit__\<close> has no
  \<^verbatim>\<open>return\<close>: it returns \<^verbatim>\<open>None\<close>, which is false.
\<close>

record wrapper =
  connection :: connection

datatype py_value = PyNone | PyBool bool

fun truthy :: "py_value \<Rightarrow> bool" where
  "truthy PyNone = False"
| "truthy (PyBool b) = b"

definition SQLiteCursor_init ::
  "lib \<Rightarrow> string option \<Rightarrow> trace \<Rightarrow> (py_error + wrapper) \<times> trace" where
  "SQLiteCursor_init L db tr =
     (let db' = (case db of None \<Rightarrow> '':memory:'' | Some d \<Rightarrow> d) in
      case call_lib L (Sqlite3_connect db') tr of
        (Inl e, tr') \<Rightarrow> (Inl e, tr')
      | (Inr _, tr') \<Rightarrow>
          (Inr \<lparr> connection = (sqlite3_connection db')\<lparr> conn_row_factory := Dict_row \<rparr> \<rparr>, tr'))"

definition SQLiteCursor_enter :: "lib \<Rightarrow> wrapper \<Rightarrow> trace \<Rightarrow> (py_error + cursor) \<times> trace" where
  "SQLiteCursor_enter L self tr =
     (case call_lib L Conn_cursor tr of
        (Inl e, tr') \<Rightarrow> (Inl e, tr')
      | (Inr _, tr') \<Rightarrow>
          (Inr \<lparr> cursor_class = Sqlite3_Cursor, cursor_connection = connection self \<rparr>, tr'))"

text \<open>
  The \<^verbatim>\<open>with\<close> statement calls \<^verbatim>\<open>__exit__\<close> with \<^verbatim>\<open>None\<close> when the block ended
  without an exception, and with the class of the exception otherwise (then its
  value and its traceback, which the method does not use). \<^verbatim>\<open>if exception:\<close> takes
  the truth value of that argument: \<^verbatim>\<open>None\<close> is false, a class has the truth value
  of \<^const>\<open>class_truth\<close>.
\<close>

fun truth_of_exception :: "py_error option \<Rightarrow> bool" where
  "truth_of_exception None = False"
| "truth_of_exception (Some e) = class_truth e"

definition SQLiteCursor_exit ::
  "lib \<Rightarrow> wrapper \<Rightarrow> py_error option \<Rightarrow> trace \<Rightarrow> (py_error + py_value) \<times> trace" where
  "SQLiteCursor_exit L self exception tr =
     (if truth_of_exception exception then
        (case call_lib L Conn_rollback tr of
           (Inl e, tr') \<Rightarrow> (Inl e, tr')
         | (Inr _, tr') \<Rightarrow>
             (case call_lib L Conn_close tr' of
                (Inl e, tr'') \<Rightarrow> (Inl e, tr'')
              | (Inr _, tr'') \<Rightarrow> (Inr PyNone, tr'')))
      else
        (case call_lib L Conn_commit tr of
           (Inl e, tr') \<Rightarrow> (Inl e, tr')
         | (Inr _, tr') \<Rightarrow>
             (case call_lib L Conn_close tr' of
                (Inl e, tr'') \<Rightarrow> (Inl e, tr'')
              | (Inr _, tr'') \<Rightarrow> (Inr PyNone, tr''))))"

text \<open>
  \<^verbatim>\<open>config = dotenv_values(".env")\<close> is a dictionary from names to strings or
  \<^verbatim>\<open>None\<close> (a name with no value in the file). \<^verbatim>\<open>config[k]\<close> raises
  \<^verbatim>\<open>KeyError\<close> when \<open>k\<close> is absent; an f-string writes \<^verbatim>\<open>None\<close> as its name.
\<close>

type_synonym config = "string \<rightharpoonup> string option"

definition getitem :: "config \<Rightarrow> string \<Rightarrow> py_error + string option" where
  "getitem cfg k = (case cfg k of None \<Rightarrow> Inl (KeyError k) | Some v \<Rightarrow> Inr v)"

fun format_value :: "string option \<Rightarrow> string" where
  "format_value None = ''None''"
| "format_value (Some s) = s"

definition credentials_of ::
  "string option \<Rightarrow> string option \<Rightarrow> string option \<Rightarrow> string option \<Rightarrow> string option \<Rightarrow> string" where
  "credentials_of database user password host port =
     ''dbname='' @ format_value database @ '' user='' @ format_value user @
     '' password='' @ format_value password @ '' host='' @ format_value host @
     '' port='' @ format_value port"

definition PostgresCursor_init :: "lib \<Rightarrow> config \<Rightarrow> trace \<Rightarrow> (py_error + wrapper) \<times> trace" where
  "PostgresCursor_init L cfg tr =
     (case getitem cfg ''HOST'' of Inl e \<Rightarrow> (Inl e, tr) | Inr host \<Rightarrow>
      case getitem cfg ''PORT'' of Inl e \<Rightarrow> (Inl e, tr) | Inr port \<Rightarrow>
      case getitem cfg ''DB'' of Inl e \<Rightarrow> (Inl e, tr) | Inr database \<Rightarrow>
      case getitem cfg ''USER'' of Inl e \<Rightarrow> (Inl e, tr) | Inr user \<Rightarrow>
      case getitem cfg ''PASSWORD'' of Inl e \<Rightarrow> (Inl e, tr) | Inr password \<Rightarrow>
        (let credentials = credentials_of database user password host port in
         case call_lib L (Psycopg_connect credentials Dict_row) tr of
           (Inl e, tr') \<Rightarrow> (Inl e, tr')
         | (Inr _, tr') \<Rightarrow> (Inr \<lparr> connection = psycopg_connection credentials Dict_row \<rparr>, tr')))"

definition PostgresCursor_enter :: "lib \<Rightarrow> wrapper \<Rightarrow> trace \<Rightarrow> (py_error + cursor) \<times> trace" where
  "PostgresCursor_enter L self tr =
     (case call_lib L Conn_cursor tr of
        (Inl e, tr') \<Rightarrow> (Inl e, tr')
      | (Inr _, tr') \<Rightarrow>
          (Inr \<lparr> cursor_class = Psycopg_Cursor, cursor_connection = connection self \<rparr>, tr'))"

definition PostgresCursor_exit ::
  "lib \<Rightarrow> wrapper \<Rightarrow> py_error option \<Rightarrow> trace \<Rightarrow> (py_error + py_value) \<times> trace" where
  "PostgresCursor_exit L self exception tr =
     (if truth_of_exception exception then
        (case call_lib L Conn_rollback tr of
           (Inl e, tr') \<Rightarrow> (Inl e, tr')
         | (Inr _, tr') \<Rightarrow>
             (case call_lib L Conn_close tr' of
                (Inl e, tr'') \<Rightarrow> (Inl e, tr'')
              | (Inr _, tr'') \<Rightarrow> (Inr PyNone, tr'')))
      else
        (case call_lib L Conn_commit tr of
           (Inl e, tr') \<Rightarrow> (Inl e, tr')
         | (Inr _, tr') \<Rightarrow>
             (case call_lib L Conn_close tr' of
                (Inl e, tr'') \<Rightarrow> (Inl e, tr'')
              | (Inr _, tr'') \<Rightarrow> (Inr PyNone, tr''))))"

section \<open>The \<^verbatim>\<open>with\<close> statement\<close>

text \<open>
  \<^verbatim>\<open>with manager as cursor: body\<close>, for a manager already constructed: enter; run
  the body; call \<^verbatim>\<open>__exit__\<close> with the body's exception or with \<^verbatim>\<open>None\<close>. An exception
  of the body is raised again after \<^verbatim>\<open>__exit__\<close> unless \<^verbatim>\<open>__exit__\<close> returned a true
  value; an exception of \<^verbatim>\<open>__exit__\<close> itself takes its place. The result is the
  body's, or \<open>None\<close> when its exception was suppressed.
\<close>

definition with_stmt ::
  "(trace \<Rightarrow> (py_error + cursor) \<times> trace) \<Rightarrow>
   (py_error option \<Rightarrow> trace \<Rightarrow> (py_error + py_value) \<times> trace) \<Rightarrow>
   (cursor \<Rightarrow> trace \<Rightarrow> (py_error + 'a) \<times> trace) \<Rightarrow>
   trace \<Rightarrow> (py_error + 'a option) \<times> trace" where
  "with_stmt enter exit body tr =
     (case enter tr of
        (Inl e, tr1) \<Rightarrow> (Inl e, tr1)
      | (Inr cur, tr1) \<Rightarrow>
          (case body cur tr1 of
             (Inl e, tr2) \<Rightarrow>
               (case exit (Some e) tr2 of
                  (Inl e', tr3) \<Rightarrow> (Inl e', tr3)
                | (Inr v, tr3) \<Rightarrow> if truthy v then (Inr None, tr3) else (Inl e, tr3))
           | (Inr x, tr2) \<Rightarrow>
               (case exit None tr2 of
                  (Inl e', tr3) \<Rightarrow> (Inl e', tr3)
                | (Inr v, tr3) \<Rightarrow> (Inr (Some x), tr3))))"

text \<open>The keys that \<^verbatim>\<open>PostgresCursor.__init__\<close> looks up, in the order of the lookups.\<close>

definition required_keys :: "string list" where
  "required_keys = [''HOST'', ''PORT'', ''DB'', ''USER'', ''PASSWORD'']"

subsection \<open>Concrete inputs for the examples\<close>

text \<open>
  The wrapper that \<^verbatim>\<open>SQLiteCursor()\<close> builds, one that \<^verbatim>\<open>PostgresCursor()\<close> builds,
  a configuration with all five keys and one without \<^verbatim>\<open>PASSWORD\<close>, and the body of
  a \<^verbatim>\<open>with\<close> block that executes one statement and then raises.
\<close>

definition memory_wrapper :: wrapper where
  "memory_wrapper =
     \<lparr> connection =
         \<lparr> conn_backend = SQLite, conn_target = '':memory:'', conn_row_factory = Dict_row \<rparr> \<rparr>"

definition server_wrapper :: wrapper where
  "server_wrapper =
     \<lparr> connection =
         \<lparr> conn_backend = Postgres,
           conn_target = ''dbname=etl user=me password=pw host=localhost port=5432'',
           conn_row_factory = Dict_row \<rparr> \<rparr>"


definition config_without_password :: config where
  "config_without_password =
     [''HOST'' \<mapsto> Some ''localhost'', ''PORT'' \<mapsto> Some ''5432'', ''DB'' \<mapsto> Some ''etl'',
      ''USER'' \<mapsto> Some ''me'']"

definition body_raises :: "cursor \<Rightarrow> trace \<Rightarrow> (py_error + nat) \<times> trace" where
  "body_raises cur tr = (Inl (Raised ''ValueError''), tr @ [Cursor_execute ''SELECT 1''])"

section \<open>The values patterns as regular expressions\<close>

text \<open>
  \<^verbatim>\<open>values_pattern\<close> is a pattern for Python's \<^verbatim>\<open>re\<close>. A \<^verbatim>\<open>str\<close> that \<^verbatim>\<open>re\<close> works on
  is the list of its code points; a literal of the module, kept as UTF-8 bytes, is
  decoded first (a malformed sequence, which a Python source file cannot hold, becomes
  U+FFFD).
\<close>

type_synonym py_str = "nat list"

definition continuation :: "char \<Rightarrow> nat" where
  "continuation b = of_char b mod 64"

fun decode_utf8 :: "string \<Rightarrow> py_str" where
  "decode_utf8 [] = []"
| "decode_utf8 (b # bs) =
     (let n = (of_char b :: nat) in
      if n < 128 then n # decode_utf8 bs
      else if 192 \<le> n \<and> n < 224 then
        (case bs of
           b1 # r \<Rightarrow> (n mod 32 * 64 + continuation b1) # decode_utf8 r
         | _ \<Rightarrow> [65533])
      else if 224 \<le> n \<and> n < 240 then
        (case bs of
           b1 # b2 # r \<Rightarrow>
             (n mod 16 * 4096 + continuation b1 * 64 + continuation b2) # decode_utf8 r
         | _ \<Rightarrow> [65533])
      else if 240 \<le> n \<and> n < 248 then
        (case bs of
           b1 # b2 # b3 # r \<Rightarrow>
             (n mod 8 * 262144 + continuation b1 * 4096 + continuation b2 * 64 +
              continuation b3) # decode_utf8 r
         | _ \<Rightarrow> [65533])
      else 65533 # decode_utf8 bs)"

text \<open>
  The part of \<^verbatim>\<open>re\<close> that the two patterns use is modelled: literal characters, an
  escaped punctuation character, \<^verbatim>\<open>\w\<close>, a capturing group and the greedy \<^verbatim>\<open>+\<close>. A
  pattern with anything else is not parsed. For a \<^verbatim>\<open>str\<close> pattern \<^verbatim>\<open>\w\<close> matches the
  underscore and every character that is alphanumeric in the Unicode database: in
  ASCII these are the letters and the digits; beyond ASCII the database is the
  parameter \<open>U\<close>, a set of code points.
\<close>

datatype regex = Epsilon | Chr nat | WordChar | Cat regex regex | Plus regex | Group regex

definition is_digit :: "nat \<Rightarrow> bool" where
  "is_digit c = (48 \<le> c \<and> c \<le> 57)"

definition is_alpha :: "nat \<Rightarrow> bool" where
  "is_alpha c = ((65 \<le> c \<and> c \<le> 90) \<or> (97 \<le> c \<and> c \<le> 122))"

definition is_word_char :: "(nat \<Rightarrow> bool) \<Rightarrow> nat \<Rightarrow> bool" where
  "is_word_char U c = (if c < 128 then is_alpha c \<or> is_digit c \<or> c = of_char CHR ''_'' else U c)"

definition is_meta :: "nat \<Rightarrow> bool" where
  "is_meta c = (c \<in> set (decode_utf8 ''.^$*?{}[]|''))"

fun cat_of :: "regex list \<Rightarrow> regex" where
  "cat_of [] = Epsilon"
| "cat_of (r # rs) = Cat r (cat_of rs)"

text \<open>
  The parser reads the pattern from left to right; \<open>cur\<close> holds the pieces of the
  group being read, last first, and \<open>stack\<close> the pieces of the groups around it.
\<close>

fun parse_re :: "py_str \<Rightarrow> regex list \<Rightarrow> regex list list \<Rightarrow> regex option" where
  "parse_re [] cur stack = (if stack = [] then Some (cat_of (rev cur)) else None)"
| "parse_re (c # cs) cur stack =
     (if c = of_char (CHR 0x5C) then
        (case cs of
           [] \<Rightarrow> None
         | d # ds \<Rightarrow>
             if d = of_char CHR ''w'' then parse_re ds (WordChar # cur) stack
             else if is_alpha d \<or> is_digit d then None
             else parse_re ds (Chr d # cur) stack)
      else if c = of_char CHR ''('' then parse_re cs [] (cur # stack)
      else if c = of_char CHR '')'' then
        (case stack of
           [] \<Rightarrow> None
         | p # st \<Rightarrow> parse_re cs (Group (cat_of (rev cur)) # p) st)
      else if c = of_char CHR ''+'' then
        (case cur of
           [] \<Rightarrow> None
         | r # rs \<Rightarrow> parse_re cs (Plus r # rs) stack)
      else if is_meta c then None
      else parse_re cs (Chr c # cur) stack)"

text \<open>
  Matching at the start of a string, by backtracking: every way the expression matches
  a prefix, in the order \<^verbatim>\<open>re\<close> tries them, each with the texts its groups captured
  and the rest of the string. \<^verbatim>\<open>+\<close> is greedy: one more round is tried before
  stopping, and only after a round that consumed something, so \<open>Suc (length s)\<close> rounds
  are always enough.
\<close>

type_synonym matches = "(py_str list \<times> py_str) list"

primrec plus_match :: "(py_str \<Rightarrow> matches) \<Rightarrow> nat \<Rightarrow> py_str \<Rightarrow> matches" where
  "plus_match m 0 s = []"
| "plus_match m (Suc n) s =
     concat (map (\<lambda>(g, rest).
       (if length rest < length s then plus_match m n rest else []) @ [(g, rest)]) (m s))"

fun match_char :: "(nat \<Rightarrow> bool) \<Rightarrow> py_str \<Rightarrow> matches" where
  "match_char P [] = []"
| "match_char P (x # xs) = (if P x then [([], xs)] else [])"

primrec match_re :: "(nat \<Rightarrow> bool) \<Rightarrow> regex \<Rightarrow> py_str \<Rightarrow> matches" where
  "match_re U Epsilon s = [([], s)]"
| "match_re U (Chr c) s = match_char (\<lambda>x. x = c) s"
| "match_re U WordChar s = match_char (is_word_char U) s"
| "match_re U (Cat r1 r2) s =
     concat (map (\<lambda>(g1, rest). map (\<lambda>(g2, rest'). (g1 @ g2, rest')) (match_re U r2 rest))
       (match_re U r1 s))"
| "match_re U (Plus r) s = plus_match (match_re U r) (Suc (length s)) s"
| "match_re U (Group r) s =
     map (\<lambda>(g, rest). (take (length s - length rest) s # g, rest)) (match_re U r s)"

text \<open>
  \<^verbatim>\<open>re.match(pattern, s)\<close>: the first match at the start of \<open>s\<close>, as its groups and
  what follows the match. \<^verbatim>\<open>re.fullmatch(pattern, s)\<close>: the first match that ends at
  the end of \<open>s\<close>. \<open>None\<close> also stands for a pattern outside the modelled part.
\<close>

definition re_match ::
  "(nat \<Rightarrow> bool) \<Rightarrow> string \<Rightarrow> py_str \<Rightarrow> (py_str list \<times> py_str) option" where
  "re_match U pattern s =
     (case parse_re (decode_utf8 pattern) [] [] of
        None \<Rightarrow> None
      | Some r \<Rightarrow> (case match_re U r s of [] \<Rightarrow> None | m # ms \<Rightarrow> Some m))"

definition re_fullmatch :: "(nat \<Rightarrow> bool) \<Rightarrow> string \<Rightarrow> py_str \<Rightarrow> py_str list option" where
  "re_fullmatch U pattern s =
     (case parse_re (decode_utf8 pattern) [] [] of
        None \<Rightarrow> None
      | Some r \<Rightarrow>
          (case filter (\<lambda>(g, rest). rest = []) (match_re U r s) of
             [] \<Rightarrow> None
           | (g, rest) # ms \<Rightarrow> Some g))"

text \<open>
  The markers of the two insert formats, for a name: as the bytes of a literal, and
  as a \<^verbatim>\<open>str\<close> for a name that is any \<^verbatim>\<open>str\<close>.
\<close>

definition sqlite_marker :: "string \<Rightarrow> string" where
  "sqlite_marker name = '':'' @ name"

definition postgres_marker :: "string \<Rightarrow> string" where
  "postgres_marker name = ''%('' @ name @ '')s''"

definition sqlite_marker_str :: "py_str \<Rightarrow> py_str" where
  "sqlite_marker_str name = decode_utf8 '':'' @ name"

definition postgres_marker_str :: "py_str \<Rightarrow> py_str" where
  "postgres_marker_str name = decode_utf8 ''%('' @ name @ decode_utf8 '')s''"

text \<open>An identifier: one or more word characters.\<close>

definition is_identifier :: "(nat \<Rightarrow> bool) \<Rightarrow> py_str \<Rightarrow> bool" where
  "is_identifier U s = (s \<noteq> [] \<and> list_all (is_word_char U) s)"

text \<open>
  For the examples: a part of the Unicode database, in which U+00F1 (the n with a
  tilde) is alphanumeric, and the bytes of a name that holds it.
\<close>

definition example_database :: "nat \<Rightarrow> bool" where
  "example_database c = (c = 241)"

definition example_name :: string where
  "example_name = [CHR ''a'', CHR 0xC3, CHR 0xB1, CHR ''o'']"

section \<open>The dialect resolver\<close>

lemma copy_formats_differ: "POSTGRES_COPY_FORMAT \<noteq> NO_COPY_FORMAT"
  by (simp add: POSTGRES_COPY_FORMAT_def NO_COPY_FORMAT_def)

text \<open>
  Claim C3: for a handle that is neither a \<^verbatim>\<open>sqlite3.Cursor\<close> nor a
  \<^verbatim>\<open>psycopg.Cursor\<close>, the resolver signals an unsupported-dialect error. The code at
  such a handle, a \<^verbatim>\<open>psycopg.AsyncCursor\<close>: the call returns, and what it returns is
  \<^verbatim>\<open>None\<close>, which is no \<^verbatim>\<open>SQLFormat\<close>, the type that the annotation and the
  docstring of \<^verbatim>\<open>get_sql_format\<close> give for its result.
\<close>

theorem resolver_unsupported_returns_none:
  "get_sql_format (Other_Class ''AsyncCursor'') = Inr None \<and>
   \<not> isl (get_sql_format (Other_Class ''AsyncCursor''))"
  by (simp add: get_sql_format_def)

text \<open>
  Claim C6: for a \<^verbatim>\<open>sqlite3.Cursor\<close> the resolver returns a descriptor with
  \<^verbatim>\<open>copy_available = False\<close> whose insert format has its markers in the \<^verbatim>\<open>:name\<close>
  syntax; for a \<^verbatim>\<open>psycopg.Cursor\<close>, one with \<^verbatim>\<open>copy_available = True\<close> whose insert
  format has its markers in the \<^verbatim>\<open>%(name)s\<close> syntax. The VALUES clause of each insert
  format is spelled out with the markers of its two placeholder names; the values
  pattern is the one of the same dialect.
\<close>

theorem resolver_descriptors:
  "(\<exists>d. get_sql_format Sqlite3_Cursor = Inr (Some d) \<and> \<not> copy_available d \<and>
        values_pattern d = SQLITE_VALUES_FORMAT \<and>
        insert_format d =
          ''\<newline>    INSERT INTO <table> (<column1>, <column2>, ...)\<newline>    VALUES ('' @
          sqlite_marker ''<column1_source>'' @ '', '' @ sqlite_marker ''<column2_source>'' @
          '', ...)\<newline>'') \<and>
   (\<exists>d. get_sql_format Psycopg_Cursor = Inr (Some d) \<and> copy_available d \<and>
        values_pattern d = POSTGRES_VALUES_FORMAT \<and>
        insert_format d =
          ''\<newline>    INSERT INTO <table> (<column1>, <column2>, ...)\<newline>    VALUES ('' @
          postgres_marker ''<column1_source>'' @ '', '' @ postgres_marker ''<column2_source>'' @
          '', ...)\<newline>'')"
proof -
  have "get_sql_format Sqlite3_Cursor = Inr (Some SQLiteFormat)"
    and "get_sql_format Psycopg_Cursor = Inr (Some PostgresFormat)"
    by (simp_all add: get_sql_format_def)
  then show ?thesis
    by (simp add: SQLiteFormat_def PostgresFormat_def SQLITE_INSERT_FORMAT_def
        POSTGRES_INSERT_FORMAT_def sqlite_marker_def postgres_marker_def)
qed

text \<open>
  Claim C9: in every descriptor that the resolver returns, \<^verbatim>\<open>copy_available\<close> is true
  exactly when \<^verbatim>\<open>copy_format\<close> is not the sentinel \<^verbatim>\<open>NO_COPY_FORMAT\<close>.
\<close>

theorem copy_flag_agrees_with_sentinel:
  assumes "get_sql_format c = Inr (Some d)"
  shows "copy_available d \<longleftrightarrow> copy_format d \<noteq> NO_COPY_FORMAT"
proof (cases c)
  case Sqlite3_Cursor
  with assms have "d = SQLiteFormat"
    by (simp add: get_sql_format_def)
  then show ?thesis
    by (simp add: SQLiteFormat_def)
next
  case Psycopg_Cursor
  with assms have "d = PostgresFormat"
    by (simp add: get_sql_format_def)
  then show ?thesis
    by (simp add: PostgresFormat_def copy_formats_differ)
next
  case (Other_Class n)
  with assms show ?thesis
    by (simp add: get_sql_format_def)
qed

theorem copy_flag_agrees_with_sentinel_witness:
  "get_sql_format Psycopg_Cursor = Inr (Some PostgresFormat) \<and>
   copy_available PostgresFormat \<and> copy_format PostgresFormat \<noteq> NO_COPY_FORMAT"
proof -
  have g: "get_sql_format Psycopg_Cursor = Inr (Some PostgresFormat)"
    by (simp add: get_sql_format_def)
  from copy_flag_agrees_with_sentinel [OF g] g show ?thesis
    by (simp add: PostgresFormat_def)
qed

section \<open>The values patterns\<close>

lemma decode_sqlite_pattern: "decode_utf8 SQLITE_VALUES_FORMAT = [58, 40, 92, 119, 43, 41]"
  by (simp add: SQLITE_VALUES_FORMAT_def)

lemma decode_postgres_pattern:
  "decode_utf8 POSTGRES_VALUES_FORMAT = [37, 92, 40, 40, 92, 119, 43, 41, 92, 41, 115]"
  by (simp add: POSTGRES_VALUES_FORMAT_def)

lemma parse_sqlite_pattern:
  "parse_re (decode_utf8 SQLITE_VALUES_FORMAT) [] [] =
     Some (Cat (Chr 58) (Cat (Group (Cat (Plus WordChar) Epsilon)) Epsilon))"
  unfolding decode_sqlite_pattern
  by (simp add: is_meta_def is_alpha_def is_digit_def)

lemma parse_postgres_pattern:
  "parse_re (decode_utf8 POSTGRES_VALUES_FORMAT) [] [] =
     Some (Cat (Chr 37) (Cat (Chr 40) (Cat (Group (Cat (Plus WordChar) Epsilon))
       (Cat (Chr 41) (Cat (Chr 115) Epsilon)))))"
  unfolding decode_postgres_pattern
  by (simp add: is_meta_def is_alpha_def is_digit_def)

lemma word_stops: "rest = [] \<or> \<not> P (hd rest) \<Longrightarrow> match_char P rest = []"
  by (cases rest) auto

lemma plus_word_stops:
  "rest = [] \<or> \<not> P (hd rest) \<Longrightarrow> plus_match (match_char P) n rest = []"
  by (cases n) (simp_all add: word_stops)

lemma plus_word_head:
  "w \<noteq> [] \<Longrightarrow> list_all P w \<Longrightarrow> rest = [] \<or> \<not> P (hd rest) \<Longrightarrow>
   length w < n \<Longrightarrow> \<exists>xs. plus_match (match_char P) n (w @ rest) = ([], rest) # xs"
proof (induction w arbitrary: n)
  case Nil
  then show ?case by simp
next
  case (Cons a w)
  then obtain k where n: "n = Suc k" and k: "length w < k"
    by (cases n) auto
  from Cons.prems have a: "P a" and w: "list_all P w"
    by simp_all
  have step: "plus_match (match_char P) (Suc k) ((a # w) @ rest) =
      plus_match (match_char P) k (w @ rest) @ [([], w @ rest)]"
    using a by simp
  show ?case
  proof (cases "w = []")
    case True
    with step Cons.prems(3) n show ?thesis
      by (simp add: plus_word_stops)
  next
    case False
    from Cons.IH [OF False w Cons.prems(3) k] obtain xs
      where "plus_match (match_char P) k (w @ rest) = ([], rest) # xs" ..
    with step n show ?thesis by simp
  qed
qed

lemma plus_re_head:
  assumes "w \<noteq> []" "list_all (is_word_char U) w" "rest = [] \<or> \<not> is_word_char U (hd rest)"
  shows "\<exists>xs. match_re U (Plus WordChar) (w @ rest) = ([], rest) # xs"
proof -
  have "match_re U WordChar = match_char (is_word_char U)"
    by (rule ext) simp
  with plus_word_head [OF assms, of "Suc (length (w @ rest))"] show ?thesis
    by (simp del: plus_match.simps)
qed

lemma cat_head:
  "match_re U r1 s = (g1, rest1) # xs \<Longrightarrow> match_re U r2 rest1 = (g2, rest2) # ys \<Longrightarrow>
   \<exists>zs. match_re U (Cat r1 r2) s = (g1 @ g2, rest2) # zs"
  by simp

lemma group_head:
  "match_re U r s = (g, rest) # xs \<Longrightarrow>
   \<exists>zs. match_re U (Group r) s = (take (length s - length rest) s # g, rest) # zs"
  by simp

lemma chr_head: "match_re U (Chr c) (c # s) = [([], s)]"
  by simp

lemma eps_head: "match_re U Epsilon s = [([], s)]"
  by simp

lemma group_word_head:
  assumes "w \<noteq> []" "list_all (is_word_char U) w" "rest = [] \<or> \<not> is_word_char U (hd rest)"
  shows "\<exists>xs. match_re U (Group (Cat (Plus WordChar) Epsilon)) (w @ rest) = ([w], rest) # xs"
proof -
  from plus_re_head [OF assms] obtain xs where
    "match_re U (Plus WordChar) (w @ rest) = ([], rest) # xs" ..
  from cat_head [OF this eps_head] obtain ys where
    "match_re U (Cat (Plus WordChar) Epsilon) (w @ rest) = ([] @ [], rest) # ys" ..
  from group_head [OF this] show ?thesis
    by simp
qed

lemma sqlite_match_head:
  assumes "w \<noteq> []" "list_all (is_word_char U) w" "rest = [] \<or> \<not> is_word_char U (hd rest)"
  shows "\<exists>xs. match_re U (Cat (Chr 58) (Cat (Group (Cat (Plus WordChar) Epsilon)) Epsilon))
           (58 # w @ rest) = ([w], rest) # xs"
proof -
  from group_word_head [OF assms] obtain xs where
    "match_re U (Group (Cat (Plus WordChar) Epsilon)) (w @ rest) = ([w], rest) # xs" ..
  from cat_head [OF this eps_head] obtain ys where
    "match_re U (Cat (Group (Cat (Plus WordChar) Epsilon)) Epsilon) (w @ rest) =
       ([w] @ [], rest) # ys" ..
  from cat_head [OF chr_head this] show ?thesis
    by simp
qed

lemma not_word_paren: "\<not> is_word_char U 41"
  by (simp add: is_word_char_def is_alpha_def is_digit_def)

lemma postgres_match_head:
  assumes "w \<noteq> []" "list_all (is_word_char U) w"
  shows "\<exists>xs. match_re U (Cat (Chr 37) (Cat (Chr 40) (Cat (Group (Cat (Plus WordChar) Epsilon))
       (Cat (Chr 41) (Cat (Chr 115) Epsilon)))))
           (37 # 40 # w @ 41 # 115 # rest) = ([w], rest) # xs"
proof -
  have "41 # 115 # rest = [] \<or> \<not> is_word_char U (hd (41 # 115 # rest))"
    by (simp add: not_word_paren)
  from group_word_head [OF assms this] obtain xs where
    g: "match_re U (Group (Cat (Plus WordChar) Epsilon)) (w @ 41 # 115 # rest) =
       ([w], 41 # 115 # rest) # xs" ..
  have t: "match_re U (Cat (Chr 41) (Cat (Chr 115) Epsilon)) (41 # 115 # rest) =
       ([] @ [], rest) # []"
    by simp
  from cat_head [OF g t] obtain ys where
    "match_re U (Cat (Group (Cat (Plus WordChar) Epsilon)) (Cat (Chr 41) (Cat (Chr 115) Epsilon)))
       (w @ 41 # 115 # rest) = ([w] @ [] @ [], rest) # ys" ..
  from cat_head [OF chr_head this] obtain zs where
    "match_re U (Cat (Chr 40) (Cat (Group (Cat (Plus WordChar) Epsilon))
         (Cat (Chr 41) (Cat (Chr 115) Epsilon))))
       (40 # w @ 41 # 115 # rest) = ([] @ [w] @ [] @ [], rest) # zs" ..
  from cat_head [OF chr_head this] show ?thesis
    by simp
qed

text \<open>
  Claim C8: for every identifier (a \<^verbatim>\<open>str\<close> of one or more word characters, ASCII or
  not, whatever the Unicode database holds beyond ASCII), the SQLite values pattern
  matches the marker \<^verbatim>\<open>:identifier\<close> and the Postgres values pattern matches the
  marker \<^verbatim>\<open>%(identifier)s\<close>; in both, group 1 is the identifier. The match is the
  whole marker (\<^verbatim>\<open>re.fullmatch\<close>), and it is the one \<^verbatim>\<open>re.match\<close> finds first.
\<close>

theorem values_patterns_match:
  assumes "is_identifier U name"
  shows "re_fullmatch U SQLITE_VALUES_FORMAT (sqlite_marker_str name) = Some [name] \<and>
         re_fullmatch U POSTGRES_VALUES_FORMAT (postgres_marker_str name) = Some [name] \<and>
         re_match U SQLITE_VALUES_FORMAT (sqlite_marker_str name) = Some ([name], []) \<and>
         re_match U POSTGRES_VALUES_FORMAT (postgres_marker_str name) = Some ([name], [])"
proof -
  from assms have n: "name \<noteq> []" "list_all (is_word_char U) name"
    by (simp_all add: is_identifier_def)
  from sqlite_match_head [OF n, of "[]"] obtain xs where
    s: "match_re U (Cat (Chr 58) (Cat (Group (Cat (Plus WordChar) Epsilon)) Epsilon))
           (58 # name) = ([name], []) # xs"
    by auto
  from postgres_match_head [OF n, of "[]"] obtain ys where
    p: "match_re U (Cat (Chr 37) (Cat (Chr 40) (Cat (Group (Cat (Plus WordChar) Epsilon))
       (Cat (Chr 41) (Cat (Chr 115) Epsilon)))))
           (37 # 40 # name @ [41, 115]) = ([name], []) # ys"
    by auto
  have "re_fullmatch U SQLITE_VALUES_FORMAT (sqlite_marker_str name) = Some [name]"
    unfolding re_fullmatch_def sqlite_marker_str_def parse_sqlite_pattern using s by simp
  moreover have "re_match U SQLITE_VALUES_FORMAT (sqlite_marker_str name) = Some ([name], [])"
    unfolding re_match_def sqlite_marker_str_def parse_sqlite_pattern using s by simp
  moreover have "re_fullmatch U POSTGRES_VALUES_FORMAT (postgres_marker_str name) = Some [name]"
    unfolding re_fullmatch_def postgres_marker_str_def parse_postgres_pattern using p by simp
  moreover have "re_match U POSTGRES_VALUES_FORMAT (postgres_marker_str name) = Some ([name], [])"
    unfolding re_match_def postgres_marker_str_def parse_postgres_pattern using p by simp
  ultimately show ?thesis by simp
qed

theorem values_patterns_match_witness:
  "is_identifier example_database (decode_utf8 example_name) \<and>
   decode_utf8 example_name = [97, 241, 111] \<and>
   re_fullmatch example_database SQLITE_VALUES_FORMAT (decode_utf8 (sqlite_marker example_name)) =
     Some [decode_utf8 example_name] \<and>
   re_fullmatch example_database POSTGRES_VALUES_FORMAT
     (decode_utf8 (postgres_marker example_name)) = Some [decode_utf8 example_name]"
proof -
  have d: "decode_utf8 example_name = [97, 241, 111]"
    by (simp add: example_name_def continuation_def)
  have i: "is_identifier example_database (decode_utf8 example_name)"
    unfolding d
    by (simp add: is_identifier_def is_word_char_def is_alpha_def is_digit_def
        example_database_def)
  have s: "decode_utf8 (sqlite_marker example_name) = sqlite_marker_str (decode_utf8 example_name)"
    unfolding d
    by (simp add: sqlite_marker_def sqlite_marker_str_def example_name_def continuation_def)
  have p: "decode_utf8 (postgres_marker example_name) =
      postgres_marker_str (decode_utf8 example_name)"
    unfolding d
    by (simp add: postgres_marker_def postgres_marker_str_def example_name_def continuation_def)
  from values_patterns_match [OF i] show ?thesis
    using i d s p by simp
qed

section \<open>Construction and entry\<close>

lemma init_no_host: "cfg ''HOST'' = None \<Longrightarrow>
    PostgresCursor_init L cfg tr = (Inl (KeyError ''HOST''), tr)"
  by (simp add: PostgresCursor_init_def getitem_def)

lemma init_no_port: "cfg ''HOST'' = Some h \<Longrightarrow> cfg ''PORT'' = None \<Longrightarrow>
    PostgresCursor_init L cfg tr = (Inl (KeyError ''PORT''), tr)"
  by (simp add: PostgresCursor_init_def getitem_def)

lemma init_no_db: "cfg ''HOST'' = Some h \<Longrightarrow> cfg ''PORT'' = Some p \<Longrightarrow> cfg ''DB'' = None \<Longrightarrow>
    PostgresCursor_init L cfg tr = (Inl (KeyError ''DB''), tr)"
  by (simp add: PostgresCursor_init_def getitem_def)

lemma init_no_user: "cfg ''HOST'' = Some h \<Longrightarrow> cfg ''PORT'' = Some p \<Longrightarrow> cfg ''DB'' = Some d \<Longrightarrow>
    cfg ''USER'' = None \<Longrightarrow>
    PostgresCursor_init L cfg tr = (Inl (KeyError ''USER''), tr)"
  by (simp add: PostgresCursor_init_def getitem_def)

lemma init_no_password: "cfg ''HOST'' = Some h \<Longrightarrow> cfg ''PORT'' = Some p \<Longrightarrow> cfg ''DB'' = Some d \<Longrightarrow>
    cfg ''USER'' = Some u \<Longrightarrow> cfg ''PASSWORD'' = None \<Longrightarrow>
    PostgresCursor_init L cfg tr = (Inl (KeyError ''PASSWORD''), tr)"
  by (simp add: PostgresCursor_init_def getitem_def)


text \<open>
  Claim C5: when one of \<^verbatim>\<open>HOST\<close>, \<^verbatim>\<open>PORT\<close>, \<^verbatim>\<open>DB\<close>, \<^verbatim>\<open>USER\<close>, \<^verbatim>\<open>PASSWORD\<close> is
  missing from the configuration, \<^verbatim>\<open>PostgresCursor()\<close> raises \<^verbatim>\<open>KeyError\<close> for a
  missing key, and no call of the database library has been issued: the trace is the
  one before the construction.
\<close>

theorem postgres_init_missing_key:
  assumes "k \<in> set required_keys" and "cfg k = None"
  shows "\<exists>k'. k' \<in> set required_keys \<and> cfg k' = None \<and>
           PostgresCursor_init L cfg tr = (Inl (KeyError k'), tr)"
proof (cases "cfg ''HOST''")
  case None
  with init_no_host [of cfg L tr] show ?thesis
    by (intro exI [of _ "''HOST''"]) (simp add: required_keys_def)
next
  case host: (Some h)
  show ?thesis
  proof (cases "cfg ''PORT''")
    case None
    with host init_no_port [of cfg h L tr] show ?thesis
      by (intro exI [of _ "''PORT''"]) (simp add: required_keys_def)
  next
    case port: (Some p)
    show ?thesis
    proof (cases "cfg ''DB''")
      case None
      with host port init_no_db [of cfg h p L tr] show ?thesis
        by (intro exI [of _ "''DB''"]) (simp add: required_keys_def)
    next
      case db: (Some d)
      show ?thesis
      proof (cases "cfg ''USER''")
        case None
        with host port db init_no_user [of cfg h p d L tr] show ?thesis
          by (intro exI [of _ "''USER''"]) (simp add: required_keys_def)
      next
        case user: (Some u)
        show ?thesis
        proof (cases "cfg ''PASSWORD''")
          case None
          with host port db user init_no_password [of cfg h p d u L tr] show ?thesis
            by (intro exI [of _ "''PASSWORD''"]) (simp add: required_keys_def)
        next
          case (Some pw)
          with host port db user assms have False
            by (auto simp add: required_keys_def)
          then show ?thesis ..
        qed
      qed
    qed
  qed
qed

theorem postgres_init_missing_key_witness:
  "''PASSWORD'' \<in> set required_keys \<and> config_without_password ''PASSWORD'' = None \<and>
   PostgresCursor_init no_faults config_without_password [] = (Inl (KeyError ''PASSWORD''), [])"
proof -
  have a: "''PASSWORD'' \<in> set required_keys"
    by (simp add: required_keys_def)
  have b: "config_without_password ''PASSWORD'' = None"
    by (simp add: config_without_password_def)
  from a b postgres_init_missing_key [of "''PASSWORD''" config_without_password no_faults "[]"]
  obtain k' where
    "config_without_password k' = None"
    "PostgresCursor_init no_faults config_without_password [] = (Inl (KeyError k'), [])"
    by blast
  moreover have "PostgresCursor_init no_faults config_without_password [] =
      (Inl (KeyError ''PASSWORD''), [])"
    by (simp add: PostgresCursor_init_def getitem_def config_without_password_def)
  ultimately show ?thesis using a b by simp
qed

text \<open>
  Claim C10: \<^verbatim>\<open>SQLiteCursor()\<close> and \<^verbatim>\<open>SQLiteCursor(":memory:")\<close> are the same
  construction: the same call of the library, the same outcome and the same wrapper,
  whatever the library does.
\<close>

theorem sqlite_default_is_memory:
  "SQLiteCursor_init L None tr = SQLiteCursor_init L (Some '':memory:'') tr"
  by (simp add: SQLiteCursor_init_def)




section \<open>Leaving the scope\<close>

text \<open>
  Claim C1, as stated: when the scope ends without an error the connection is closed
  once and a commit is issued once, the close before the commit. The code commits
  first. Amended: when the scope ends without an error and the commit returns,
  \<^verbatim>\<open>__exit__\<close> of either wrapper issues the commit once and then the close once, in
  that order, and nothing else.
\<close>

theorem exit_success_commit_then_close:
  assumes "L tr Conn_commit = None"
  shows "snd (SQLiteCursor_exit L w None tr) = tr @ [Conn_commit, Conn_close] \<and>
         snd (PostgresCursor_exit L w None tr) = tr @ [Conn_commit, Conn_close]"
  using assms
  by (simp add: SQLiteCursor_exit_def PostgresCursor_exit_def call_lib_def split: option.splits)

theorem exit_success_commit_then_close_witness:
  "no_faults [Conn_cursor] Conn_commit = None \<and>
   snd (SQLiteCursor_exit no_faults memory_wrapper None [Conn_cursor]) =
     [Conn_cursor, Conn_commit, Conn_close] \<and>
   snd (PostgresCursor_exit no_faults server_wrapper None [Conn_cursor]) =
     [Conn_cursor, Conn_commit, Conn_close]"
proof -
  have n: "no_faults [Conn_cursor] Conn_commit = None"
    by (simp add: no_faults_def)
  from n exit_success_commit_then_close
      [where L = no_faults and tr = "[Conn_cursor]" and w = memory_wrapper]
    exit_success_commit_then_close
      [where L = no_faults and tr = "[Conn_cursor]" and w = server_wrapper]
  show ?thesis
    by simp
qed

text \<open>
  The claim as stated fails with a library that never raises: the commit is the first
  of the two calls.
\<close>

theorem exit_success_order_counterexample:
  "snd (SQLiteCursor_exit no_faults memory_wrapper None []) = [Conn_commit, Conn_close] \<and>
   snd (SQLiteCursor_exit no_faults memory_wrapper None []) \<noteq> [Conn_close, Conn_commit] \<and>
   snd (PostgresCursor_exit no_faults server_wrapper None []) = [Conn_commit, Conn_close] \<and>
   snd (PostgresCursor_exit no_faults server_wrapper None []) \<noteq> [Conn_close, Conn_commit]"
  by (simp add: SQLiteCursor_exit_def PostgresCursor_exit_def call_lib_def no_faults_def)

text \<open>
  Claim C2, as stated: when the scope ends with an error the connection is closed
  once and a rollback is issued once, the close before the rollback, and no commit
  is issued. The code rolls back first, and it tests the truth value of the
  exception's class. Amended: when the scope ends with an error whose class is true,
  as every ordinary exception class is, and the rollback returns, \<^verbatim>\<open>__exit__\<close> of
  either wrapper issues the rollback once and then the close once, in that order, and
  nothing else: no commit.
\<close>

theorem exit_error_rollback_then_close:
  assumes "class_truth e" and "L tr Conn_rollback = None"
  shows "snd (SQLiteCursor_exit L w (Some e) tr) = tr @ [Conn_rollback, Conn_close] \<and>
         snd (PostgresCursor_exit L w (Some e) tr) = tr @ [Conn_rollback, Conn_close] \<and>
         Conn_commit \<notin> set (drop (length tr) (snd (SQLiteCursor_exit L w (Some e) tr))) \<and>
         Conn_commit \<notin> set (drop (length tr) (snd (PostgresCursor_exit L w (Some e) tr)))"
  using assms
  by (simp add: SQLiteCursor_exit_def PostgresCursor_exit_def call_lib_def split: option.splits)

theorem exit_error_rollback_then_close_witness:
  "class_truth (Raised ''ValueError'') \<and> no_faults [Conn_cursor] Conn_rollback = None \<and>
   snd (SQLiteCursor_exit no_faults memory_wrapper (Some (Raised ''ValueError'')) [Conn_cursor]) =
     [Conn_cursor, Conn_rollback, Conn_close] \<and>
   snd (PostgresCursor_exit no_faults server_wrapper (Some (Raised ''ValueError'')) [Conn_cursor]) =
     [Conn_cursor, Conn_rollback, Conn_close]"
proof -
  have c: "class_truth (Raised ''ValueError'')"
    by simp
  have n: "no_faults [Conn_cursor] Conn_rollback = None"
    by (simp add: no_faults_def)
  from c n exit_error_rollback_then_close
      [where e = "Raised ''ValueError''" and L = no_faults and tr = "[Conn_cursor]"
         and w = memory_wrapper]
    exit_error_rollback_then_close
      [where e = "Raised ''ValueError''" and L = no_faults and tr = "[Conn_cursor]"
         and w = server_wrapper]
  show ?thesis
    by simp
qed

text \<open>
  The claim as stated fails with a library that never raises: the rollback is the
  first of the two calls; and for an exception whose class is false the calls are
  those of the other branch.
\<close>

theorem exit_error_order_counterexample:
  "snd (SQLiteCursor_exit no_faults memory_wrapper (Some (Raised ''ValueError'')) []) =
     [Conn_rollback, Conn_close] \<and>
   snd (SQLiteCursor_exit no_faults memory_wrapper (Some (Raised ''ValueError'')) []) \<noteq>
     [Conn_close, Conn_rollback] \<and>
   snd (PostgresCursor_exit no_faults server_wrapper (Some (Raised ''ValueError'')) []) =
     [Conn_rollback, Conn_close] \<and>
   snd (PostgresCursor_exit no_faults server_wrapper (Some (Raised ''ValueError'')) []) \<noteq>
     [Conn_close, Conn_rollback] \<and>
   snd (SQLiteCursor_exit no_faults memory_wrapper (Some (Raised_falsy ''Odd'')) []) =
     [Conn_commit, Conn_close] \<and>
   snd (PostgresCursor_exit no_faults server_wrapper (Some (Raised_falsy ''Odd'')) []) =
     [Conn_commit, Conn_close]"
  by (simp add: SQLiteCursor_exit_def PostgresCursor_exit_def call_lib_def no_faults_def)

lemma sqlite_exit_not_truthy:
  "SQLiteCursor_exit L w exc tr = (Inr v, tr') \<Longrightarrow> \<not> truthy v"
  by (auto simp add: SQLiteCursor_exit_def call_lib_def split: option.splits if_splits)

lemma postgres_exit_not_truthy:
  "PostgresCursor_exit L w exc tr = (Inr v, tr') \<Longrightarrow> \<not> truthy v"
  by (auto simp add: PostgresCursor_exit_def call_lib_def split: option.splits if_splits)

lemma with_stmt_body_raises:
  assumes "enter tr = (Inr cur, tr1)" and "body cur tr1 = (Inl e, tr2)"
    and "exit (Some e) tr2 = (Inr v, tr3)" and "\<not> truthy v"
  shows "with_stmt enter exit body tr = (Inl e, tr3)"
  using assms by (simp add: with_stmt_def)

lemma with_stmt_never_swallows:
  assumes "enter tr = (Inr cur, tr1)" and "body cur tr1 = (Inl e, tr2)"
    and "\<And>v tr3. exit (Some e) tr2 = (Inr v, tr3) \<Longrightarrow> \<not> truthy v"
  shows "isl (fst (with_stmt enter exit body tr))"
proof (cases "exit (Some e) tr2")
  case (Pair r tr3)
  show ?thesis
  proof (cases r)
    case (Inl e')
    with Pair assms(1,2) show ?thesis
      by (simp add: with_stmt_def)
  next
    case (Inr v)
    with Pair assms(3) have "\<not> truthy v"
      by simp
    with Pair Inr assms(1,2) show ?thesis
      by (simp add: with_stmt_def)
  qed
qed

text \<open>
  Claim C4, as stated: after the cleanup of \<^verbatim>\<open>__exit__\<close>, the caller observes the very
  error that was raised inside the scope. An exception of the cleanup itself takes its
  place. Amended: \<^verbatim>\<open>__exit__\<close> of either wrapper never returns a true value, so the
  \<^verbatim>\<open>with\<close> statement never swallows the error of its body and always ends with an
  exception; and whenever \<^verbatim>\<open>__exit__\<close> returns (its cleanup calls return), the caller
  observes the very error that the body raised, after the cleanup.
\<close>

theorem scope_error_propagates:
  assumes "body cur tr1 = (Inl e, tr2)"
  shows
    "(SQLiteCursor_enter L w tr = (Inr cur, tr1) \<longrightarrow>
        isl (fst (with_stmt (SQLiteCursor_enter L w) (SQLiteCursor_exit L w) body tr)) \<and>
        (\<forall>v tr3. SQLiteCursor_exit L w (Some e) tr2 = (Inr v, tr3) \<longrightarrow>
           with_stmt (SQLiteCursor_enter L w) (SQLiteCursor_exit L w) body tr = (Inl e, tr3))) \<and>
     (PostgresCursor_enter L w tr = (Inr cur, tr1) \<longrightarrow>
        isl (fst (with_stmt (PostgresCursor_enter L w) (PostgresCursor_exit L w) body tr)) \<and>
        (\<forall>v tr3. PostgresCursor_exit L w (Some e) tr2 = (Inr v, tr3) \<longrightarrow>
           with_stmt (PostgresCursor_enter L w) (PostgresCursor_exit L w) body tr = (Inl e, tr3)))"
proof (intro conjI impI allI)
  assume en: "SQLiteCursor_enter L w tr = (Inr cur, tr1)"
  show "isl (fst (with_stmt (SQLiteCursor_enter L w) (SQLiteCursor_exit L w) body tr))"
  proof (rule with_stmt_never_swallows)
    show "SQLiteCursor_enter L w tr = (Inr cur, tr1)" by (rule en)
    show "body cur tr1 = (Inl e, tr2)" by (rule assms)
    show "\<not> truthy v" if "SQLiteCursor_exit L w (Some e) tr2 = (Inr v, tr3)" for v tr3
      using that by (rule sqlite_exit_not_truthy)
  qed
next
  assume en: "PostgresCursor_enter L w tr = (Inr cur, tr1)"
  show "isl (fst (with_stmt (PostgresCursor_enter L w) (PostgresCursor_exit L w) body tr))"
  proof (rule with_stmt_never_swallows)
    show "PostgresCursor_enter L w tr = (Inr cur, tr1)" by (rule en)
    show "body cur tr1 = (Inl e, tr2)" by (rule assms)
    show "\<not> truthy v" if "PostgresCursor_exit L w (Some e) tr2 = (Inr v, tr3)" for v tr3
      using that by (rule postgres_exit_not_truthy)
  qed
next
  fix v tr3
  assume en: "SQLiteCursor_enter L w tr = (Inr cur, tr1)"
    and ex: "SQLiteCursor_exit L w (Some e) tr2 = (Inr v, tr3)"
  from ex have "\<not> truthy v"
    by (rule sqlite_exit_not_truthy)
  with en assms ex
  show "with_stmt (SQLiteCursor_enter L w) (SQLiteCursor_exit L w) body tr = (Inl e, tr3)"
    by (simp add: with_stmt_def)
next
  fix v tr3
  assume en: "PostgresCursor_enter L w tr = (Inr cur, tr1)"
    and ex: "PostgresCursor_exit L w (Some e) tr2 = (Inr v, tr3)"
  from ex have "\<not> truthy v"
    by (rule postgres_exit_not_truthy)
  with en assms ex
  show "with_stmt (PostgresCursor_enter L w) (PostgresCursor_exit L w) body tr = (Inl e, tr3)"
    by (simp add: with_stmt_def)
qed

theorem scope_error_propagates_witness:
  "body_raises \<lparr> cursor_class = Sqlite3_Cursor, cursor_connection = connection memory_wrapper \<rparr>
     [Conn_cursor] = (Inl (Raised ''ValueError''), [Conn_cursor, Cursor_execute ''SELECT 1'']) \<and>
   SQLiteCursor_enter no_faults memory_wrapper [] =
     (Inr \<lparr> cursor_class = Sqlite3_Cursor, cursor_connection = connection memory_wrapper \<rparr>,
      [Conn_cursor]) \<and>
   SQLiteCursor_exit no_faults memory_wrapper (Some (Raised ''ValueError''))
     [Conn_cursor, Cursor_execute ''SELECT 1''] =
     (Inr PyNone, [Conn_cursor, Cursor_execute ''SELECT 1'', Conn_rollback, Conn_close]) \<and>
   with_stmt (SQLiteCursor_enter no_faults memory_wrapper)
     (SQLiteCursor_exit no_faults memory_wrapper) body_raises [] =
     (Inl (Raised ''ValueError''),
      [Conn_cursor, Cursor_execute ''SELECT 1'', Conn_rollback, Conn_close])"
proof -
  let ?cur = "\<lparr> cursor_class = Sqlite3_Cursor, cursor_connection = connection memory_wrapper \<rparr>"
  have b: "body_raises ?cur [Conn_cursor] =
      (Inl (Raised ''ValueError''), [Conn_cursor, Cursor_execute ''SELECT 1''])"
    by (simp add: body_raises_def)
  have n: "SQLiteCursor_enter no_faults memory_wrapper [] = (Inr ?cur, [Conn_cursor])"
    by (simp add: SQLiteCursor_enter_def call_lib_def no_faults_def)
  have x: "SQLiteCursor_exit no_faults memory_wrapper (Some (Raised ''ValueError''))
     [Conn_cursor, Cursor_execute ''SELECT 1''] =
     (Inr PyNone, [Conn_cursor, Cursor_execute ''SELECT 1'', Conn_rollback, Conn_close])"
    by (simp add: SQLiteCursor_exit_def call_lib_def no_faults_def)
  from b n x scope_error_propagates
    [where body = body_raises and cur = ?cur and ?tr1.0 = "[Conn_cursor]"
       and e = "Raised ''ValueError''" and ?tr2.0 = "[Conn_cursor, Cursor_execute ''SELECT 1'']"
       and L = no_faults and w = memory_wrapper and tr = "[]"]
  have "with_stmt (SQLiteCursor_enter no_faults memory_wrapper)
     (SQLiteCursor_exit no_faults memory_wrapper) body_raises [] =
     (Inl (Raised ''ValueError''),
      [Conn_cursor, Cursor_execute ''SELECT 1'', Conn_rollback, Conn_close])"
    by blast
  with b n x show ?thesis
    by simp
qed

text \<open>
  The claim as stated fails with a library whose rollback raises: the caller observes
  the error of the rollback, not the \<^verbatim>\<open>ValueError\<close> of the body.
\<close>

theorem scope_error_replaced_counterexample:
  "with_stmt (SQLiteCursor_enter rollback_fails memory_wrapper)
     (SQLiteCursor_exit rollback_fails memory_wrapper) body_raises [] =
     (Inl (Raised ''OperationalError''),
      [Conn_cursor, Cursor_execute ''SELECT 1'', Conn_rollback]) \<and>
   with_stmt (PostgresCursor_enter rollback_fails server_wrapper)
     (PostgresCursor_exit rollback_fails server_wrapper) body_raises [] =
     (Inl (Raised ''OperationalError''),
      [Conn_cursor, Cursor_execute ''SELECT 1'', Conn_rollback]) \<and>
   Raised ''OperationalError'' \<noteq> Raised ''ValueError''"
  by (simp add: with_stmt_def SQLiteCursor_enter_def SQLiteCursor_exit_def
      PostgresCursor_enter_def PostgresCursor_exit_def call_lib_def rollback_fails_def
      body_raises_def)

end
